theory Spec2Isabelle
  imports Main
begin

section \<open>Constants of \<open>main.go\<close>\<close>

definition GitLabRunnerRoleName :: string where
  "GitLabRunnerRoleName = ''GitLabRunnerRole''"

definition GitLabRunnerRolePolicyName :: string where
  "GitLabRunnerRolePolicyName = ''GitLabRunnerRolePolicy''"

text \<open>
  The two policy documents are Go raw string literals: every byte between the back quotes
  belongs to the string, so each line break is a line feed and the indentation is made of
  tab characters. \<open>tabs n\<close> is the indentation of a line of the literal.
\<close>

definition tabs :: "nat \<Rightarrow> string" where
  "tabs n = replicate n (CHR 0x09)"

definition GitLabRunnerRolePolicyDocument :: string where
  \<open>GitLabRunnerRolePolicyDocument =
     ''{\<newline>'' @
     tabs 2 @ ''"Version": "2012-10-17",\<newline>'' @
     tabs 2 @ ''"Statement": [\<newline>'' @
     tabs 3 @ ''{\<newline>'' @
     tabs 4 @ ''"Effect": "Allow",\<newline>'' @
     tabs 4 @ ''"Action": [\<newline>'' @
     tabs 5 @ ''"ec2:*",\<newline>'' @
     tabs 5 @ ''"elasticloadbalancing:*",\<newline>'' @
     tabs 5 @ ''"autoscaling:*",\<newline>'' @
     tabs 5 @ ''"cloudwatch:*",\<newline>'' @
     tabs 5 @ ''"s3:*",\<newline>'' @
     tabs 5 @ ''"sns:*",\<newline>'' @
     tabs 5 @ ''"sqs:*",\<newline>'' @
     tabs 5 @ ''"rds:*",\<newline>'' @
     tabs 5 @ ''"route53:*",\<newline>'' @
     tabs 5 @ ''"iam:PassRole",\<newline>'' @
     tabs 5 @ ''"iam:GetRole",\<newline>'' @
     tabs 5 @ ''"iam:ListInstanceProfiles",\<newline>'' @
     tabs 5 @ ''"iam:ListRoles"\<newline>'' @
     tabs 4 @ ''],\<newline>'' @
     tabs 4 @ ''"Resource": "*"\<newline>'' @
     tabs 3 @ ''}\<newline>'' @
     tabs 2 @ '']\<newline>'' @
     tabs 1 @ ''}''\<close>

definition GitLabRunnerRoleAssumeRolePolicyDocument :: string where
  \<open>GitLabRunnerRoleAssumeRolePolicyDocument =
     ''{\<newline>'' @
     tabs 2 @ ''"Version": "2012-10-17",\<newline>'' @
     tabs 2 @ ''"Statement": [\<newline>'' @
     tabs 3 @ ''{\<newline>'' @
     tabs 4 @ ''"Effect": "Allow",\<newline>'' @
     tabs 4 @ ''"Principal": {\<newline>'' @
     tabs 5 @ ''"Service": "eks.amazonaws.com"\<newline>'' @
     tabs 4 @ ''},\<newline>'' @
     tabs 4 @ ''"Action": "sts:AssumeRole"\<newline>'' @
     tabs 3 @ ''}\<newline>'' @
     tabs 2 @ '']\<newline>'' @
     tabs 1 @ ''}''\<close>

definition GitLabRunnerServiceAccountName :: string where
  "GitLabRunnerServiceAccountName = ''gitlab-runner''"

definition GitLabRunnerServiceAccountAnnotation :: string where
  "GitLabRunnerServiceAccountAnnotation = ''eks.amazonaws.com/role-arn''"

definition GitLabRunnerServiceAccountAnnotationValue :: string where
  "GitLabRunnerServiceAccountAnnotationValue = ''arn:aws:iam::%s:role/%s''"

definition GitLabRunnerHelmChartName :: string where
  "GitLabRunnerHelmChartName = ''gitlab-runner''"

definition GitLabRunnerHelmChartRepo :: string where
  "GitLabRunnerHelmChartRepo = ''https://charts.gitlab.io''"

definition GitLabRunnerHelmChartVersion :: string where
  "GitLabRunnerHelmChartVersion = ''0.1.0''"

definition GitLabRunnerHelmChartValuesFile :: string where
  "GitLabRunnerHelmChartValuesFile = ''values.yaml''"

definition GitLabRunnerHelmChartReleaseName :: string where
  "GitLabRunnerHelmChartReleaseName = ''gitlab-runner''"

definition GitLabRunnerHelmChartNamespace :: string where
  "GitLabRunnerHelmChartNamespace = ''gitlab-runner''"

section \<open>Errors, nil pointers and process termination\<close>

text \<open>
  A Go \<open>error\<close> is identified with the message its \<open>Error()\<close> method returns; the
  nil error is \<open>None\<close> of \<open>error option\<close>. \<open>errors.Wrap(err, message)\<close> of
  \<open>github.com/pkg/errors\<close> prefixes the message to the cause.
\<close>

type_synonym error = string

definition Wrap :: "error \<Rightarrow> string \<Rightarrow> error" where
  "Wrap err message = message @ '': '' @ err"

text \<open>
  A function either returns its results or panics; the only panic of this program is the
  dereference of a nil pointer in an API output (\<open>*out.Account\<close>, \<open>*out.Role.Arn\<close>,
  \<open>*out.Policy.Arn\<close>).
\<close>

datatype 'a outcome = Returns 'a | Panics

text \<open>
  How the process ends: \<open>main\<close> returns (exit status 0), \<open>logrus.Fatal(err)\<close> logs the
  error and calls \<open>os.Exit(1)\<close>, an unrecovered panic ends the process with status 2.
\<close>

datatype process_exit = Done | Fatal error | Panicked

fun exit_code :: "process_exit \<Rightarrow> nat" where
  "exit_code Done = 0"
| "exit_code (Fatal err) = 1"
| "exit_code Panicked = 2"

section \<open>\<open>fmt.Sprintf\<close> with string operands\<close>

text \<open>
  The fragment of \<open>fmt.Sprintf\<close> the program uses: every operand is a string, and the
  verbs of the format are \<open>%s\<close> (the operand's bytes, unchanged) and \<open>%%\<close>. A missing
  operand prints \<open>%!s(MISSING)\<close>, a \<open>%\<close> at the end of the format \<open>%!(NOVERB)\<close>, and
  operands left over are listed after \<open>%!(EXTRA\<close>. Any other verb character is rendered
  as Go renders a verb that does not apply to strings; flags, widths and the verbs
  \<open>v q x X T\<close> are outside the fragment (\<open>plain_format\<close> below recognises it).
\<close>

fun extra_args :: "string list \<Rightarrow> string" where
  "extra_args [] = []"
| "extra_args [a] = ''string='' @ a"
| "extra_args (a # b # as) = ''string='' @ a @ '', '' @ extra_args (b # as)"

fun Sprintf :: "string \<Rightarrow> string list \<Rightarrow> string" where
  "Sprintf [] args = (if args = [] then [] else ''%!(EXTRA '' @ extra_args args @ '')'')"
| "Sprintf [c] args =
     (if c = CHR ''%'' then ''%!(NOVERB)'' @ Sprintf [] args else c # Sprintf [] args)"
| "Sprintf (c # v # format) args =
     (if c \<noteq> CHR ''%'' then c # Sprintf (v # format) args
      else if v = CHR ''%'' then CHR ''%'' # Sprintf format args
      else (case args of
              [] \<Rightarrow> ''%!'' @ [v] @ ''(MISSING)'' @ Sprintf format []
            | a # as \<Rightarrow>
                (if v = CHR ''s'' then a else ''%!'' @ [v] @ ''(string='' @ a @ '')'')
                  @ Sprintf format as))"

fun plain_format :: "string \<Rightarrow> bool" where
  "plain_format [] = True"
| "plain_format [c] = (c \<noteq> CHR ''%'')"
| "plain_format (c # v # format) =
     (if c \<noteq> CHR ''%'' then plain_format (v # format)
      else (v = CHR ''%'' \<or> v = CHR ''s'') \<and> plain_format format)"

section \<open>External collaborators and program state\<close>

text \<open>The request structures of the AWS SDK, with the fields the program sets.\<close>

record CreateRoleInput =
  AssumeRolePolicyDocument :: string
  RoleName :: string

record CreatePolicyInput =
  Description :: string
  PolicyDocument :: string
  PolicyName :: string

record AttachRolePolicyInput =
  PolicyArn :: string
  RoleName :: string

text \<open>
  The response structures, with the fields the program reads. Every one of them is a
  pointer in Go, hence an \<open>option\<close> here (\<open>None\<close> is nil).
\<close>

record GetCallerIdentityOutput =
  Account :: "string option"

record Role =
  Arn :: "string option"

record CreateRoleOutput =
  Role :: "Role option"

record Policy =
  Arn :: "string option"

record CreatePolicyOutput =
  Policy :: "Policy option"

text \<open>
  Every invocation of an external collaborator, with its arguments. \<open>Run name args\<close> is
  \<open>exec.Command(name, args...).Run()\<close>.
\<close>

datatype call =
    NewSession string
  | GetCallerIdentity
  | CreateRole CreateRoleInput
  | CreatePolicy CreatePolicyInput
  | AttachRolePolicy AttachRolePolicyInput
  | Run string "string list"

text \<open>
  The collaborators are deterministic but otherwise arbitrary: each answer may depend on
  all invocations made before it (the first argument, oldest first) and on the request.
  An API call answers with an error (\<open>Inl\<close>) or an output; \<open>NewSession\<close>,
  \<open>AttachRolePolicy\<close> and a subprocess answer with an error or nil (for a subprocess,
  nil is exit status 0).
\<close>

record env =
  session_NewSession :: "call list \<Rightarrow> string \<Rightarrow> error option"
  sts_GetCallerIdentity :: "call list \<Rightarrow> error + GetCallerIdentityOutput"
  iam_CreateRole :: "call list \<Rightarrow> CreateRoleInput \<Rightarrow> error + CreateRoleOutput"
  iam_CreatePolicy :: "call list \<Rightarrow> CreatePolicyInput \<Rightarrow> error + CreatePolicyOutput"
  iam_AttachRolePolicy :: "call list \<Rightarrow> AttachRolePolicyInput \<Rightarrow> error option"
  cmd_Run :: "call list \<Rightarrow> string \<Rightarrow> string list \<Rightarrow> error option"

text \<open>
  The program's state: its three package-level variables, and the invocations made so
  far (oldest first).
\<close>

record state =
  GitLabRunnerRoleARN :: string
  GitLabRunnerRolePolicyARN :: string
  GitLabRunnerServiceAccountARN :: string
  calls :: "call list"

definition init_state :: state where
  "init_state = \<lparr>GitLabRunnerRoleARN = [], GitLabRunnerRolePolicyARN = [],
     GitLabRunnerServiceAccountARN = [], calls = []\<rparr>"

definition invoke :: "call \<Rightarrow> state \<Rightarrow> state" where
  "invoke c s = s\<lparr>calls := calls s @ [c]\<rparr>"

section \<open>The functions of \<open>main.go\<close>\<close>

text \<open>
  The SDK clients are built from the session without any call; the collaborators \<open>env\<close>
  stand for them. A Go function returning \<open>(string, error)\<close> returns both values.
  Each function records its invocation, then reads the collaborator's answer for the
  invocations made before it. The packages \<open>main.go\<close> imports without using them
  (\<open>strings\<close>, \<open>time\<close> and the two Kubernetes client packages) have no part in
  what the functions compute.
\<close>

definition getAccountID :: "env \<Rightarrow> state \<Rightarrow> (string \<times> error option) outcome \<times> state" where
  "getAccountID env s =
     (let s' = invoke GetCallerIdentity s in
      case sts_GetCallerIdentity env (calls s) of
        Inl err \<Rightarrow> (Returns ([], Some (Wrap err ''failed to get caller identity'')), s')
      | Inr getCallerIdentityOutput \<Rightarrow>
          (case Account getCallerIdentityOutput of
             None \<Rightarrow> (Panics, s')
           | Some account \<Rightarrow> (Returns (account, None), s')))"

definition createRole ::
  "env \<Rightarrow> string \<Rightarrow> state \<Rightarrow> (string \<times> error option) outcome \<times> state" where
  "createRole env accountID s =
     (let input = \<lparr>AssumeRolePolicyDocument = GitLabRunnerRoleAssumeRolePolicyDocument,
                    CreateRoleInput.RoleName = GitLabRunnerRoleName\<rparr>;
          s' = invoke (CreateRole input) s in
      case iam_CreateRole env (calls s) input of
        Inl err \<Rightarrow> (Returns ([], Some (Wrap err ''failed to create role'')), s')
      | Inr createRoleOutput \<Rightarrow>
          (case Role createRoleOutput of
             None \<Rightarrow> (Panics, s')
           | Some role \<Rightarrow>
               (case Role.Arn role of
                  None \<Rightarrow> (Panics, s')
                | Some arn \<Rightarrow> (Returns (arn, None), s'))))"

definition createRolePolicy ::
  "env \<Rightarrow> string \<Rightarrow> state \<Rightarrow> (string \<times> error option) outcome \<times> state" where
  "createRolePolicy env accountID s =
     (let input = \<lparr>Description = ''GitLab Runner role policy'',
                    PolicyDocument = GitLabRunnerRolePolicyDocument,
                    PolicyName = GitLabRunnerRolePolicyName\<rparr>;
          s' = invoke (CreatePolicy input) s in
      case iam_CreatePolicy env (calls s) input of
        Inl err \<Rightarrow> (Returns ([], Some (Wrap err ''failed to create role policy'')), s')
      | Inr createPolicyOutput \<Rightarrow>
          (case Policy createPolicyOutput of
             None \<Rightarrow> (Panics, s')
           | Some policy \<Rightarrow>
               (case Policy.Arn policy of
                  None \<Rightarrow> (Panics, s')
                | Some arn \<Rightarrow> (Returns (arn, None), s'))))"

definition attachRolePolicy :: "env \<Rightarrow> string \<Rightarrow> state \<Rightarrow> error option \<times> state" where
  "attachRolePolicy env accountID s =
     (let input = \<lparr>PolicyArn = GitLabRunnerRolePolicyARN s,
                    RoleName = GitLabRunnerRoleName\<rparr>;
          s' = invoke (AttachRolePolicy input) s in
      case iam_AttachRolePolicy env (calls s) input of
        Some err \<Rightarrow> (Some (Wrap err ''failed to attach role policy''), s')
      | None \<Rightarrow> (None, s'))"

definition createServiceAccount ::
  "env \<Rightarrow> string \<Rightarrow> state \<Rightarrow> (string \<times> error option) \<times> state" where
  "createServiceAccount env accountID s =
     (let args = [''create'', ''serviceaccount'', GitLabRunnerServiceAccountName];
          s1 = invoke (Run ''kubectl'' args) s in
      case cmd_Run env (calls s) ''kubectl'' args of
        Some err \<Rightarrow> (([], Some (Wrap err ''failed to create service account'')), s1)
      | None \<Rightarrow>
          (let s2 = s1\<lparr>GitLabRunnerServiceAccountARN :=
                      Sprintf GitLabRunnerServiceAccountAnnotationValue
                        [accountID, GitLabRunnerRoleName]\<rparr>;
               args = [''annotate'', ''serviceaccount'', GitLabRunnerServiceAccountName,
                       GitLabRunnerServiceAccountAnnotation @ ''='' @
                         GitLabRunnerServiceAccountARN s2];
               s3 = invoke (Run ''kubectl'' args) s2 in
           case cmd_Run env (calls s2) ''kubectl'' args of
             Some err \<Rightarrow> (([], Some (Wrap err ''failed to annotate service account'')), s3)
           | None \<Rightarrow> ((GitLabRunnerServiceAccountARN s3, None), s3)))"

definition deployHelmChart :: "env \<Rightarrow> state \<Rightarrow> error option \<times> state" where
  "deployHelmChart env s =
     (let args = [''repo'', ''add'', ''gitlab'', GitLabRunnerHelmChartRepo];
          s1 = invoke (Run ''helm'' args) s in
      case cmd_Run env (calls s) ''helm'' args of
        Some err \<Rightarrow> (Some (Wrap err ''failed to add helm chart repo''), s1)
      | None \<Rightarrow>
          (let args = [''install'', ''--name'', GitLabRunnerHelmChartReleaseName,
                       ''--namespace'', GitLabRunnerHelmChartNamespace,
                       ''--values'', GitLabRunnerHelmChartValuesFile,
                       GitLabRunnerHelmChartName,
                       ''--version'', GitLabRunnerHelmChartVersion];
               s2 = invoke (Run ''helm'' args) s1 in
           case cmd_Run env (calls s1) ''helm'' args of
             Some err \<Rightarrow> (Some (Wrap err ''failed to install helm chart''), s2)
           | None \<Rightarrow> (None, s2)))"

text \<open>
  \<open>main\<close> starts from the zero values of the package-level variables. An assignment
  \<open>X, err = f(...)\<close> stores the returned string in \<open>X\<close> before \<open>err\<close> is tested.
\<close>

definition main :: "env \<Rightarrow> process_exit \<times> state" where
  "main env =
     (let s = invoke (NewSession ''eu-west-1'') init_state in
      case session_NewSession env (calls init_state) ''eu-west-1'' of
        Some err \<Rightarrow> (Fatal err, s)
      | None \<Rightarrow>
     (case getAccountID env s of
        (Panics, s) \<Rightarrow> (Panicked, s)
      | (Returns (accountID, Some err), s) \<Rightarrow> (Fatal err, s)
      | (Returns (accountID, None), s) \<Rightarrow>
     (case createRole env accountID s of
        (Panics, s) \<Rightarrow> (Panicked, s)
      | (Returns (arn, Some err), s) \<Rightarrow> (Fatal err, s\<lparr>GitLabRunnerRoleARN := arn\<rparr>)
      | (Returns (arn, None), s) \<Rightarrow>
     (case createRolePolicy env accountID (s\<lparr>GitLabRunnerRoleARN := arn\<rparr>) of
        (Panics, s) \<Rightarrow> (Panicked, s)
      | (Returns (arn, Some err), s) \<Rightarrow> (Fatal err, s\<lparr>GitLabRunnerRolePolicyARN := arn\<rparr>)
      | (Returns (arn, None), s) \<Rightarrow>
     (case attachRolePolicy env accountID (s\<lparr>GitLabRunnerRolePolicyARN := arn\<rparr>) of
        (Some err, s) \<Rightarrow> (Fatal err, s)
      | (None, s) \<Rightarrow>
     (case createServiceAccount env accountID s of
        ((arn, Some err), s) \<Rightarrow> (Fatal err, s\<lparr>GitLabRunnerServiceAccountARN := arn\<rparr>)
      | ((arn, None), s) \<Rightarrow>
     (case deployHelmChart env (s\<lparr>GitLabRunnerServiceAccountARN := arn\<rparr>) of
        (Some err, s) \<Rightarrow> (Fatal err, s)
      | (None, s) \<Rightarrow> (Done, s))))))))"


section \<open>JSON documents\<close>

text \<open>
  What it means for a string to parse as JSON: a recursive-descent parser for the grammar
  of RFC 8259 over the bytes of the string. It is conservative: a string literal may
  hold printable ASCII and the two-character escapes only (a \<open>\u\<close> escape, a control
  character or a byte above 0x7F is refused), so every string it accepts is valid JSON.
  Numbers are kept as their lexemes, objects as association lists in document order.
  The parser recurs on a fuel argument that decreases at every nested call;
  \<open>parse_json\<close> supplies the length of the input, and returns a value only if nothing
  but white space follows it.
\<close>

datatype json =
    JNull
  | JBool bool
  | JNumber string
  | JString string
  | JArray "json list"
  | JObject "(string \<times> json) list"

definition is_ws :: "char \<Rightarrow> bool" where
  "is_ws c = (c = CHR '' '' \<or> c = CHR 0x09 \<or> c = CHR 0x0A \<or> c = CHR 0x0D)"

fun skip_ws :: "string \<Rightarrow> string" where
  "skip_ws [] = []"
| "skip_ws (c # cs) = (if is_ws c then skip_ws cs else c # cs)"

definition is_digit :: "char \<Rightarrow> bool" where
  "is_digit c = (c \<in> set ''0123456789'')"

definition unescape :: "char \<Rightarrow> char option" where
  "unescape e =
     (if e = CHR 0x22 \<or> e = CHR 0x5C \<or> e = CHR ''/'' then Some e
      else if e = CHR ''b'' then Some (CHR 0x08)
      else if e = CHR ''f'' then Some (CHR 0x0C)
      else if e = CHR ''n'' then Some (CHR 0x0A)
      else if e = CHR ''r'' then Some (CHR 0x0D)
      else if e = CHR ''t'' then Some (CHR 0x09)
      else None)"

definition plain_char :: "char \<Rightarrow> bool" where
  "plain_char c = ((digit5 c \<or> digit6 c) \<and> \<not> digit7 c)"

fun lex_string :: "string \<Rightarrow> (string \<times> string) option" where
  "lex_string [] = None"
| "lex_string [c] = (if c = CHR 0x22 then Some ([], []) else None)"
| "lex_string (c # d # cs) =
     (if c = CHR 0x22 then Some ([], d # cs)
      else if c = CHR 0x5C then
        (case unescape d of
           None \<Rightarrow> None
         | Some u \<Rightarrow> map_option (apfst ((#) u)) (lex_string cs))
      else if plain_char c then map_option (apfst ((#) c)) (lex_string (d # cs))
      else None)"

definition lex_digits :: "string \<Rightarrow> (string \<times> string) option" where
  "lex_digits cs =
     (if takeWhile is_digit cs = [] then None
      else Some (takeWhile is_digit cs, dropWhile is_digit cs))"

definition lex_int :: "string \<Rightarrow> (string \<times> string) option" where
  "lex_int cs =
     (case cs of
        [] \<Rightarrow> None
      | c # r \<Rightarrow> if c = CHR ''0'' then Some (''0'', r) else lex_digits cs)"

definition lex_frac :: "string \<Rightarrow> (string \<times> string) option" where
  "lex_frac cs =
     (case cs of
        [] \<Rightarrow> Some ([], cs)
      | c # r \<Rightarrow>
          if c = CHR ''.'' then map_option (apfst ((#) c)) (lex_digits r)
          else Some ([], cs))"

definition lex_exp :: "string \<Rightarrow> (string \<times> string) option" where
  "lex_exp cs =
     (case cs of
        [] \<Rightarrow> Some ([], cs)
      | c # r \<Rightarrow>
          if c = CHR ''e'' \<or> c = CHR ''E'' then
            (case r of
               [] \<Rightarrow> None
             | g # r' \<Rightarrow>
                 if g = CHR ''+'' \<or> g = CHR ''-''
                 then map_option (apfst (\<lambda>ds. c # g # ds)) (lex_digits r')
                 else map_option (apfst ((#) c)) (lex_digits r))
          else Some ([], cs))"

definition lex_number :: "string \<Rightarrow> (string \<times> string) option" where
  "lex_number cs =
     (let (sign, cs0) = (case cs of [] \<Rightarrow> ([], cs)
                         | c # r \<Rightarrow> if c = CHR ''-'' then ([c], r) else ([], cs)) in
      case lex_int cs0 of
        None \<Rightarrow> None
      | Some (i, cs1) \<Rightarrow>
          (case lex_frac cs1 of
             None \<Rightarrow> None
           | Some (f, cs2) \<Rightarrow>
               (case lex_exp cs2 of
                  None \<Rightarrow> None
                | Some (e, cs3) \<Rightarrow> Some (sign @ i @ f @ e, cs3))))"

definition lex_literal :: "string \<Rightarrow> (json \<times> string) option" where
  "lex_literal cs =
     (if take 4 cs = ''true'' then Some (JBool True, drop 4 cs)
      else if take 5 cs = ''false'' then Some (JBool False, drop 5 cs)
      else if take 4 cs = ''null'' then Some (JNull, drop 4 cs)
      else None)"

fun parse_value :: "nat \<Rightarrow> string \<Rightarrow> (json \<times> string) option"
and parse_elements :: "nat \<Rightarrow> string \<Rightarrow> (json list \<times> string) option"
and parse_members :: "nat \<Rightarrow> string \<Rightarrow> ((string \<times> json) list \<times> string) option"
where
  "parse_value 0 cs = None"
| "parse_value (Suc n) cs =
     (case skip_ws cs of
        [] \<Rightarrow> None
      | c # r \<Rightarrow>
          if c = CHR ''{'' then
            (case skip_ws r of
               [] \<Rightarrow> None
             | d # r' \<Rightarrow>
                 if d = CHR ''}'' then Some (JObject [], r')
                 else map_option (apfst JObject) (parse_members n (d # r')))
          else if c = CHR ''['' then
            (case skip_ws r of
               [] \<Rightarrow> None
             | d # r' \<Rightarrow>
                 if d = CHR '']'' then Some (JArray [], r')
                 else map_option (apfst JArray) (parse_elements n (d # r')))
          else if c = CHR 0x22 then map_option (apfst JString) (lex_string r)
          else if c = CHR ''-'' \<or> is_digit c then map_option (apfst JNumber) (lex_number (c # r))
          else lex_literal (c # r))"
| "parse_elements 0 cs = None"
| "parse_elements (Suc n) cs =
     (case parse_value n cs of
        None \<Rightarrow> None
      | Some (v, r) \<Rightarrow>
          (case skip_ws r of
             [] \<Rightarrow> None
           | d # r' \<Rightarrow>
               if d = CHR '','' then map_option (apfst ((#) v)) (parse_elements n r')
               else if d = CHR '']'' then Some ([v], r')
               else None))"
| "parse_members 0 cs = None"
| "parse_members (Suc n) cs =
     (case skip_ws cs of
        [] \<Rightarrow> None
      | q # r \<Rightarrow>
          if q \<noteq> CHR 0x22 then None
          else
            (case lex_string r of
               None \<Rightarrow> None
             | Some (k, r1) \<Rightarrow>
                 (case skip_ws r1 of
                    [] \<Rightarrow> None
                  | colon # r2 \<Rightarrow>
                      if colon \<noteq> CHR '':'' then None
                      else
                        (case parse_value n r2 of
                           None \<Rightarrow> None
                         | Some (v, r3) \<Rightarrow>
                             (case skip_ws r3 of
                                [] \<Rightarrow> None
                              | d # r4 \<Rightarrow>
                                  if d = CHR '','' then
                                    map_option (apfst ((#) (k, v))) (parse_members n r4)
                                  else if d = CHR ''}'' then Some ([(k, v)], r4)
                                  else None)))))"

definition parse_json :: "string \<Rightarrow> json option" where
  "parse_json s =
     (case parse_value (length s) s of
        None \<Rightarrow> None
      | Some (v, r) \<Rightarrow> if skip_ws r = [] then Some v else None)"


text \<open>Access paths into a parsed document: \<open>Statement[0].Principal.Service\<close> is
  \<open>[Key ''Statement'', Index 0, Key ''Principal'', Key ''Service'']\<close>.\<close>

datatype selector = Key string | Index nat

fun lookup :: "selector list \<Rightarrow> json \<Rightarrow> json option" where
  "lookup [] j = Some j"
| "lookup (Key k # p) (JObject kvs) =
     (case map_of kvs k of None \<Rightarrow> None | Some v \<Rightarrow> lookup p v)"
| "lookup (Index i # p) (JArray xs) = (if i < length xs then lookup p (xs ! i) else None)"
| "lookup (sel # p) j = None"

text \<open>
  The actions of a policy statement (a string or an array of strings under \<open>Action\<close>).
  An action \<open>svc:*\<close> is a wildcard on the service \<open>svc\<close>; any other action is a named
  action.
\<close>

fun string_value :: "json \<Rightarrow> string option" where
  "string_value (JString s) = Some s"
| "string_value j = None"

definition actions_of :: "json \<Rightarrow> string list" where
  "actions_of statement =
     (case lookup [Key ''Action''] statement of
        Some (JArray xs) \<Rightarrow> List.map_filter string_value xs
      | Some (JString a) \<Rightarrow> [a]
      | _ \<Rightarrow> [])"

definition wildcard_service :: "string \<Rightarrow> string option" where
  "wildcard_service a =
     (if 2 \<le> length a \<and> drop (length a - 2) a = '':*''
      then Some (take (length a - 2) a) else None)"

definition wildcard_services :: "json \<Rightarrow> string list" where
  "wildcard_services statement = List.map_filter wildcard_service (actions_of statement)"

definition named_actions :: "json \<Rightarrow> string list" where
  "named_actions statement = filter (\<lambda>a. wildcard_service a = None) (actions_of statement)"


section \<open>Vocabulary of the specification\<close>

text \<open>
  The step of the six-step pipeline an invocation belongs to: 1 identity resolution,
  2 role creation, 3 policy creation, 4 policy attachment, 5 service-account binding
  (the \<open>kubectl\<close> subprocesses), 6 chart deployment (the \<open>helm\<close> subprocesses).
\<close>

fun step_of :: "call \<Rightarrow> nat" where
  "step_of (NewSession region) = 1"
| "step_of GetCallerIdentity = 1"
| "step_of (CreateRole input) = 2"
| "step_of (CreatePolicy input) = 3"
| "step_of (AttachRolePolicy input) = 4"
| "step_of (Run name args) =
     (if name = ''kubectl'' then 5 else if name = ''helm'' then 6 else 7)"

text \<open>
  A collaborator succeeds on an invocation when it answers without an error and with
  the fields present that the program reads from the answer.
\<close>

fun succeeds :: "env \<Rightarrow> call list \<Rightarrow> call \<Rightarrow> bool" where
  "succeeds env h (NewSession region) = (session_NewSession env h region = None)"
| "succeeds env h GetCallerIdentity =
     (case sts_GetCallerIdentity env h of
        Inl err \<Rightarrow> False
      | Inr out \<Rightarrow> Account out \<noteq> None)"
| "succeeds env h (CreateRole input) =
     (case iam_CreateRole env h input of
        Inl err \<Rightarrow> False
      | Inr out \<Rightarrow> (case Role out of None \<Rightarrow> False | Some role \<Rightarrow> Role.Arn role \<noteq> None))"
| "succeeds env h (CreatePolicy input) =
     (case iam_CreatePolicy env h input of
        Inl err \<Rightarrow> False
      | Inr out \<Rightarrow>
          (case Policy out of None \<Rightarrow> False | Some policy \<Rightarrow> Policy.Arn policy \<noteq> None))"
| "succeeds env h (AttachRolePolicy input) = (iam_AttachRolePolicy env h input = None)"
| "succeeds env h (Run name args) = (cmd_Run env h name args = None)"

text \<open>
  The subprocess invocations of the external-interface contract, with their
  placeholders as parameters.
\<close>

definition kubectl_create_serviceaccount :: "string \<Rightarrow> call" where
  "kubectl_create_serviceaccount name = Run ''kubectl'' [''create'', ''serviceaccount'', name]"

definition kubectl_annotate_serviceaccount :: "string \<Rightarrow> string \<Rightarrow> string \<Rightarrow> call" where
  "kubectl_annotate_serviceaccount name annotation_key annotation_value =
     Run ''kubectl'' [''annotate'', ''serviceaccount'', name,
       annotation_key @ ''='' @ annotation_value]"

definition helm_repo_add :: "string \<Rightarrow> string \<Rightarrow> call" where
  "helm_repo_add alias repo_url = Run ''helm'' [''repo'', ''add'', alias, repo_url]"

definition helm_install ::
  "string \<Rightarrow> string \<Rightarrow> string \<Rightarrow> string \<Rightarrow> string \<Rightarrow> call" where
  "helm_install release namespace values_file_path chart_name version =
     Run ''helm'' [''install'', ''--name'', release, ''--namespace'', namespace,
       ''--values'', values_file_path, chart_name, ''--version'', version]"

definition is_subprocess :: "call \<Rightarrow> bool" where
  "is_subprocess c = (case c of Run name args \<Rightarrow> True | _ \<Rightarrow> False)"

text \<open>
  The invocations of a complete run, in order, for the account id \<open>a\<close> and the policy
  ARN \<open>p\<close> that policy creation returned.
\<close>

definition full_run :: "string \<Rightarrow> string \<Rightarrow> call list" where
  "full_run a p =
     [NewSession ''eu-west-1'',
      GetCallerIdentity,
      CreateRole \<lparr>AssumeRolePolicyDocument = GitLabRunnerRoleAssumeRolePolicyDocument,
                  CreateRoleInput.RoleName = GitLabRunnerRoleName\<rparr>,
      CreatePolicy \<lparr>Description = ''GitLab Runner role policy'',
                    PolicyDocument = GitLabRunnerRolePolicyDocument,
                    PolicyName = GitLabRunnerRolePolicyName\<rparr>,
      AttachRolePolicy \<lparr>PolicyArn = p, RoleName = GitLabRunnerRoleName\<rparr>,
      kubectl_create_serviceaccount GitLabRunnerServiceAccountName,
      kubectl_annotate_serviceaccount GitLabRunnerServiceAccountName
        GitLabRunnerServiceAccountAnnotation
        (Sprintf GitLabRunnerServiceAccountAnnotationValue [a, GitLabRunnerRoleName]),
      helm_repo_add ''gitlab'' GitLabRunnerHelmChartRepo,
      helm_install GitLabRunnerHelmChartReleaseName GitLabRunnerHelmChartNamespace
        GitLabRunnerHelmChartValuesFile GitLabRunnerHelmChartName GitLabRunnerHelmChartVersion]"

text \<open>
  The first statement of a policy document, the services it grants wildcard actions on
  and the actions it names one by one; \<open>None\<close> when the document does not parse or has
  no first statement.
\<close>

definition statement0 :: "string \<Rightarrow> json option" where
  "statement0 document = Option.bind (parse_json document) (lookup [Key ''Statement'', Index 0])"

definition document_wildcard_services :: "string \<Rightarrow> string list option" where
  "document_wildcard_services document = map_option wildcard_services (statement0 document)"

definition document_named_actions :: "string \<Rightarrow> string list option" where
  "document_named_actions document = map_option named_actions (statement0 document)"

text \<open>
  The collaborators \<open>env\<close>, except that every role ARN role creation returns is
  replaced by \<open>x\<close>.
\<close>

definition with_role_arn :: "string \<Rightarrow> env \<Rightarrow> env" where
  "with_role_arn x env =
     env\<lparr>iam_CreateRole := \<lambda>h input.
       (case iam_CreateRole env h input of
          Inl err \<Rightarrow> Inl err
        | Inr out \<Rightarrow>
            Inr (case Role out of
                   None \<Rightarrow> out
                 | Some role \<Rightarrow>
                     (case Role.Arn role of
                        None \<Rightarrow> out
                      | Some arn \<Rightarrow> out\<lparr>Role := Some (role\<lparr>Role.Arn := Some x\<rparr>)\<rparr>)))\<rparr>"

section \<open>Mocked collaborators\<close>

text \<open>
  \<open>mock (Some n) arn\<close> answers the invocation number \<open>n\<close> of a run (counted from 0)
  with an error and every other one with success; \<open>mock None arn\<close> always answers with
  success. The account is \<open>123456789012\<close> and role creation returns \<open>arn\<close>.
\<close>

definition mock :: "nat option \<Rightarrow> string \<Rightarrow> env" where
  "mock n arn =
     \<lparr>session_NewSession =
        (\<lambda>h region. if n = Some (length h) then Some ''no credentials'' else None),
      sts_GetCallerIdentity =
        (\<lambda>h. if n = Some (length h) then Inl ''access denied''
             else Inr \<lparr>Account = Some ''123456789012''\<rparr>),
      iam_CreateRole =
        (\<lambda>h input. if n = Some (length h) then Inl ''EntityAlreadyExists''
                   else Inr \<lparr>Role = Some \<lparr>Role.Arn = Some arn\<rparr>\<rparr>),
      iam_CreatePolicy =
        (\<lambda>h input. if n = Some (length h) then Inl ''EntityAlreadyExists''
                   else Inr \<lparr>Policy = Some \<lparr>Policy.Arn =
                          Some ''arn:aws:iam::123456789012:policy/GitLabRunnerRolePolicy''\<rparr>\<rparr>),
      iam_AttachRolePolicy =
        (\<lambda>h input. if n = Some (length h) then Some ''access denied'' else None),
      cmd_Run = (\<lambda>h name args. if n = Some (length h) then Some ''exit status 1'' else None)\<rparr>"

definition env_ok :: env where
  "env_ok = mock None ''arn:aws:iam::123456789012:role/GitLabRunnerRole''"

section \<open>Properties\<close>

lemmas constants_defs =
  GitLabRunnerRoleName_def GitLabRunnerRolePolicyName_def
  GitLabRunnerServiceAccountName_def GitLabRunnerServiceAccountAnnotation_def
  GitLabRunnerServiceAccountAnnotationValue_def GitLabRunnerHelmChartName_def
  GitLabRunnerHelmChartRepo_def GitLabRunnerHelmChartVersion_def
  GitLabRunnerHelmChartValuesFile_def GitLabRunnerHelmChartReleaseName_def
  GitLabRunnerHelmChartNamespace_def

subsection \<open>The annotation value\<close>

lemma annotation_format_plain: "plain_format GitLabRunnerServiceAccountAnnotationValue"
  by (simp add: GitLabRunnerServiceAccountAnnotationValue_def)

lemma Sprintf_annotation:
  "Sprintf GitLabRunnerServiceAccountAnnotationValue [a, GitLabRunnerRoleName] =
     ''arn:aws:iam::'' @ a @ '':role/GitLabRunnerRole''"
  by (simp add: GitLabRunnerServiceAccountAnnotationValue_def GitLabRunnerRoleName_def)

text \<open>
  Claim C2. For every non-empty account id \<open>a\<close>, once the \<open>kubectl create
  serviceaccount\<close> subprocess has succeeded, the annotation value the Service Account
  Binder computes, stores in \<open>GitLabRunnerServiceAccountARN\<close> and passes to \<open>kubectl
  annotate\<close> is exactly \<open>arn:aws:iam::\<close> followed by \<open>a\<close> followed by
  \<open>:role/GitLabRunnerRole\<close>; it is also the string the function returns when the
  annotation succeeds (the empty string is returned with an error).
\<close>

theorem annotation_value_format:
  assumes "a \<noteq> []"
    and "cmd_Run env (calls s) ''kubectl'' [''create'', ''serviceaccount'', ''gitlab-runner''] = None"
  shows "GitLabRunnerServiceAccountARN (snd (createServiceAccount env a s)) =
           ''arn:aws:iam::'' @ a @ '':role/GitLabRunnerRole'' \<and>
         last (calls (snd (createServiceAccount env a s))) =
           Run ''kubectl'' [''annotate'', ''serviceaccount'', ''gitlab-runner'',
             ''eks.amazonaws.com/role-arn='' @ ''arn:aws:iam::'' @ a @ '':role/GitLabRunnerRole''] \<and>
         fst (fst (createServiceAccount env a s)) =
           (if snd (fst (createServiceAccount env a s)) = None
            then ''arn:aws:iam::'' @ a @ '':role/GitLabRunnerRole'' else [])"
  using assms(2)
  by (simp add: createServiceAccount_def Let_def invoke_def Sprintf_annotation
      GitLabRunnerServiceAccountName_def GitLabRunnerServiceAccountAnnotation_def
      split: option.splits)

text \<open>
  The instance of the claim for the account id \<open>123456789012\<close>, with collaborators
  that succeed.
\<close>

theorem annotation_value_format_witness:
  "''123456789012'' \<noteq> [] \<and>
   cmd_Run env_ok (calls init_state) ''kubectl'' [''create'', ''serviceaccount'', ''gitlab-runner''] = None \<and>
   GitLabRunnerServiceAccountARN (snd (createServiceAccount env_ok ''123456789012'' init_state)) =
     ''arn:aws:iam::123456789012:role/GitLabRunnerRole'' \<and>
   fst (createServiceAccount env_ok ''123456789012'' init_state) =
     (''arn:aws:iam::123456789012:role/GitLabRunnerRole'', None)"
proof -
  have h1: "''123456789012'' \<noteq> []" by simp
  have h2: "cmd_Run env_ok (calls init_state) ''kubectl''
              [''create'', ''serviceaccount'', ''gitlab-runner''] = None"
    by (simp add: env_ok_def mock_def init_state_def)
  have h3: "snd (fst (createServiceAccount env_ok ''123456789012'' init_state)) = None"
    by (simp add: createServiceAccount_def Let_def invoke_def env_ok_def mock_def init_state_def)
  from annotation_value_format [OF h1 h2] h1 h2 h3 show ?thesis
    by (simp add: prod_eq_iff)
qed

text \<open>
  Claim C9. \<open>createRole\<close>, \<open>createRolePolicy\<close> and \<open>attachRolePolicy\<close> do not
  depend on their \<open>accountID\<close> argument: with the same collaborators and from the same
  state, two account ids give the same returned values and the same final state, which
  holds the API request that was issued.
\<close>

theorem iam_steps_ignore_account_id:
  "createRole env a1 s = createRole env a2 s \<and>
   createRolePolicy env a1 s = createRolePolicy env a2 s \<and>
   attachRolePolicy env a1 s = attachRolePolicy env a2 s"
  by (simp add: createRole_def createRolePolicy_def attachRolePolicy_def)

text \<open>
  Claim C10. When \<open>kubectl create serviceaccount\<close> succeeds and \<open>kubectl annotate\<close>
  fails, \<open>createServiceAccount\<close> returns the empty string with the wrapped error, and
  the variable \<open>GitLabRunnerServiceAccountARN\<close> holds the computed annotation value
  when the function returns.
\<close>

theorem createServiceAccount_not_atomic:
  assumes "cmd_Run env (calls s) ''kubectl'' [''create'', ''serviceaccount'', ''gitlab-runner''] = None"
    and "cmd_Run env (calls s @ [Run ''kubectl'' [''create'', ''serviceaccount'', ''gitlab-runner'']])
           ''kubectl'' [''annotate'', ''serviceaccount'', ''gitlab-runner'',
             ''eks.amazonaws.com/role-arn='' @
               Sprintf GitLabRunnerServiceAccountAnnotationValue [a, GitLabRunnerRoleName]] = Some err"
  shows "fst (createServiceAccount env a s) = ([], Some (Wrap err ''failed to annotate service account'')) \<and>
         GitLabRunnerServiceAccountARN (snd (createServiceAccount env a s)) =
           Sprintf GitLabRunnerServiceAccountAnnotationValue [a, GitLabRunnerRoleName]"
  using assms
  by (simp add: createServiceAccount_def Let_def invoke_def
      GitLabRunnerServiceAccountName_def GitLabRunnerServiceAccountAnnotation_def)

text \<open>
  Collaborators whose second invocation fails: the service account is created, the
  annotation is refused.
\<close>

theorem createServiceAccount_not_atomic_witness:
  "cmd_Run (mock (Some 1) []) (calls init_state) ''kubectl'' [''create'', ''serviceaccount'', ''gitlab-runner''] = None \<and>
   cmd_Run (mock (Some 1) []) (calls init_state @ [Run ''kubectl'' [''create'', ''serviceaccount'', ''gitlab-runner'']])
           ''kubectl'' [''annotate'', ''serviceaccount'', ''gitlab-runner'',
             ''eks.amazonaws.com/role-arn='' @
               Sprintf GitLabRunnerServiceAccountAnnotationValue [''123456789012'', GitLabRunnerRoleName]] = Some ''exit status 1'' \<and>
   fst (createServiceAccount (mock (Some 1) []) ''123456789012'' init_state) =
     ([], Some ''failed to annotate service account: exit status 1'') \<and>
   GitLabRunnerServiceAccountARN (snd (createServiceAccount (mock (Some 1) []) ''123456789012'' init_state)) =
     ''arn:aws:iam::123456789012:role/GitLabRunnerRole''"
proof -
  have h1: "cmd_Run (mock (Some 1) []) (calls init_state) ''kubectl''
              [''create'', ''serviceaccount'', ''gitlab-runner''] = None"
    by (simp add: mock_def init_state_def)
  have h2: "cmd_Run (mock (Some 1) [])
              (calls init_state @ [Run ''kubectl'' [''create'', ''serviceaccount'', ''gitlab-runner'']])
              ''kubectl'' [''annotate'', ''serviceaccount'', ''gitlab-runner'',
                ''eks.amazonaws.com/role-arn='' @
                  Sprintf GitLabRunnerServiceAccountAnnotationValue
                    [''123456789012'', GitLabRunnerRoleName]] = Some ''exit status 1''"
    by (simp add: mock_def init_state_def)
  from createServiceAccount_not_atomic [OF h1 h2] h1 h2 show ?thesis
    by (simp add: Wrap_def Sprintf_annotation)
qed

subsection \<open>The policy documents\<close>

lemma createRole_request:
  "calls (snd (createRole env a s)) =
     calls s @ [CreateRole \<lparr>AssumeRolePolicyDocument = GitLabRunnerRoleAssumeRolePolicyDocument,
                            CreateRoleInput.RoleName = GitLabRunnerRoleName\<rparr>]"
  by (simp add: createRole_def Let_def invoke_def split: sum.splits option.splits)

lemma createRolePolicy_request:
  "calls (snd (createRolePolicy env a s)) =
     calls s @ [CreatePolicy \<lparr>Description = ''GitLab Runner role policy'',
                              PolicyDocument = GitLabRunnerRolePolicyDocument,
                              PolicyName = GitLabRunnerRolePolicyName\<rparr>]"
  by (simp add: createRolePolicy_def Let_def invoke_def split: sum.splits option.splits)

text \<open>
  Claim C4. The trust-policy document that \<open>createRole\<close> passes to role creation parses
  as JSON; in the parsed document \<open>Statement[0].Principal.Service\<close> is the string
  \<open>eks.amazonaws.com\<close> and \<open>Statement[0].Action\<close> is the string \<open>sts:AssumeRole\<close>.
\<close>

theorem trust_policy_document:
  "calls (snd (createRole env a s)) =
     calls s @ [CreateRole \<lparr>AssumeRolePolicyDocument = GitLabRunnerRoleAssumeRolePolicyDocument,
                            CreateRoleInput.RoleName = GitLabRunnerRoleName\<rparr>] \<and>
   parse_json GitLabRunnerRoleAssumeRolePolicyDocument =
     Some (JObject
       [(''Version'', JString ''2012-10-17''),
        (''Statement'',
         JArray
          [JObject
            [(''Effect'', JString ''Allow''),
             (''Principal'', JObject [(''Service'', JString ''eks.amazonaws.com'')]),
             (''Action'', JString ''sts:AssumeRole'')]])]) \<and>
   Option.bind (parse_json GitLabRunnerRoleAssumeRolePolicyDocument)
     (lookup [Key ''Statement'', Index 0, Key ''Principal'', Key ''Service'']) =
     Some (JString ''eks.amazonaws.com'') \<and>
   Option.bind (parse_json GitLabRunnerRoleAssumeRolePolicyDocument)
     (lookup [Key ''Statement'', Index 0, Key ''Action'']) = Some (JString ''sts:AssumeRole'')"
proof (intro conjI)
  show "calls (snd (createRole env a s)) =
     calls s @ [CreateRole \<lparr>AssumeRolePolicyDocument = GitLabRunnerRoleAssumeRolePolicyDocument,
                            CreateRoleInput.RoleName = GitLabRunnerRoleName\<rparr>]"
    by (rule createRole_request)
qed code_simp+

text \<open>
  The permissions-policy document names four IAM actions, not three.
\<close>

theorem three_iam_actions_counterexample:
  "map_option length (document_named_actions GitLabRunnerRolePolicyDocument) \<noteq> Some 3"
  by code_simp

text \<open>
  Claim C3, amended. The permissions-policy document that \<open>createRolePolicy\<close> passes to
  policy creation parses as JSON. Its only statement allows, on \<open>Resource\<close> \<open>*\<close>, the
  wildcard actions of exactly the services ec2, elasticloadbalancing, autoscaling,
  cloudwatch, s3, sns, sqs, rds and route53, and exactly four named IAM actions:
  \<open>iam:PassRole\<close>, \<open>iam:GetRole\<close>, \<open>iam:ListInstanceProfiles\<close> and \<open>iam:ListRoles\<close>.
\<close>

theorem permissions_policy_document:
  "calls (snd (createRolePolicy env a s)) =
     calls s @ [CreatePolicy \<lparr>Description = ''GitLab Runner role policy'',
                              PolicyDocument = GitLabRunnerRolePolicyDocument,
                              PolicyName = GitLabRunnerRolePolicyName\<rparr>] \<and>
   parse_json GitLabRunnerRolePolicyDocument =
     Some (JObject
       [(''Version'', JString ''2012-10-17''),
        (''Statement'',
         JArray
          [JObject
            [(''Effect'', JString ''Allow''),
             (''Action'',
              JArray
               [JString ''ec2:*'', JString ''elasticloadbalancing:*'',
                JString ''autoscaling:*'', JString ''cloudwatch:*'',
                JString ''s3:*'', JString ''sns:*'', JString ''sqs:*'',
                JString ''rds:*'', JString ''route53:*'',
                JString ''iam:PassRole'', JString ''iam:GetRole'',
                JString ''iam:ListInstanceProfiles'', JString ''iam:ListRoles'']),
             (''Resource'', JString ''*'')]])]) \<and>
   Option.bind (statement0 GitLabRunnerRolePolicyDocument) (lookup [Key ''Effect'']) =
     Some (JString ''Allow'') \<and>
   Option.bind (statement0 GitLabRunnerRolePolicyDocument) (lookup [Key ''Resource'']) =
     Some (JString ''*'') \<and>
   document_wildcard_services GitLabRunnerRolePolicyDocument =
     Some [''ec2'', ''elasticloadbalancing'', ''autoscaling'', ''cloudwatch'', ''s3'', ''sns'',
           ''sqs'', ''rds'', ''route53''] \<and>
   document_named_actions GitLabRunnerRolePolicyDocument =
     Some [''iam:PassRole'', ''iam:GetRole'', ''iam:ListInstanceProfiles'', ''iam:ListRoles'']"
proof (intro conjI)
  show "calls (snd (createRolePolicy env a s)) =
     calls s @ [CreatePolicy \<lparr>Description = ''GitLab Runner role policy'',
                              PolicyDocument = GitLabRunnerRolePolicyDocument,
                              PolicyName = GitLabRunnerRolePolicyName\<rparr>]"
    by (rule createRolePolicy_request)
qed code_simp+

subsection \<open>Runs of \<open>main\<close>\<close>

lemmas step_defs = main_def getAccountID_def createRole_def createRolePolicy_def
  attachRolePolicy_def createServiceAccount_def deployHelmChart_def Let_def invoke_def
  init_state_def

lemmas contract_defs = kubectl_create_serviceaccount_def kubectl_annotate_serviceaccount_def
  helm_repo_add_def helm_install_def

lemma mock_None_succeeds: "succeeds (mock None arn) h c"
  by (cases c) (simp_all add: mock_def)

text \<open>
  Claim C5. When every collaborator succeeds on every invocation, the run makes exactly
  the nine invocations of \<open>full_run\<close>, in that order: the session, the identity lookup,
  role creation, policy creation and policy attachment once each, then the two
  \<open>kubectl\<close> subprocesses, then the two \<open>helm\<close> subprocesses; and \<open>main\<close> returns, so
  the exit status is 0.
\<close>

theorem successful_run:
  assumes "\<forall>h c. succeeds env h c"
  shows "fst (main env) = Done \<and> exit_code (fst (main env)) = 0 \<and>
         (\<exists>a p. calls (snd (main env)) = full_run a p) \<and>
         map step_of (calls (snd (main env))) = [1, 1, 2, 3, 4, 5, 5, 6, 6]"
proof -
  have ok: "succeeds env h c" for h c
    using assms by blast
  have A: "session_NewSession env h region = None" for h region
    using ok [of h "NewSession region"] by simp
  have B: "\<exists>out a. sts_GetCallerIdentity env h = Inr out \<and> Account out = Some a" for h
    using ok [of h GetCallerIdentity] by (auto split: sum.splits)
  have C: "\<exists>out role r. iam_CreateRole env h i = Inr out \<and> Role out = Some role \<and>
             Role.Arn role = Some r" for h i
    using ok [of h "CreateRole i"] by (auto split: sum.splits option.splits)
  have D: "\<exists>out policy p. iam_CreatePolicy env h i = Inr out \<and> Policy out = Some policy \<and>
             Policy.Arn policy = Some p" for h i
    using ok [of h "CreatePolicy i"] by (auto split: sum.splits option.splits)
  have E: "iam_AttachRolePolicy env h i = None" for h i
    using ok [of h "AttachRolePolicy i"] by simp
  have F: "cmd_Run env h name args = None" for h name args
    using ok [of h "Run name args"] by simp
  let ?h1 = "[NewSession ''eu-west-1'']"
  obtain out1 a where a: "sts_GetCallerIdentity env ?h1 = Inr out1" "Account out1 = Some a"
    using B by blast
  let ?i2 = "\<lparr>AssumeRolePolicyDocument = GitLabRunnerRoleAssumeRolePolicyDocument,
              CreateRoleInput.RoleName = GitLabRunnerRoleName\<rparr>"
  let ?h2 = "?h1 @ [GetCallerIdentity]"
  obtain out2 role r where r: "iam_CreateRole env ?h2 ?i2 = Inr out2" "Role out2 = Some role"
      "Role.Arn role = Some r"
    using C by blast
  let ?i3 = "\<lparr>Description = ''GitLab Runner role policy'',
              PolicyDocument = GitLabRunnerRolePolicyDocument,
              PolicyName = GitLabRunnerRolePolicyName\<rparr>"
  let ?h3 = "?h2 @ [CreateRole ?i2]"
  obtain out3 policy p where p: "iam_CreatePolicy env ?h3 ?i3 = Inr out3"
      "Policy out3 = Some policy" "Policy.Arn policy = Some p"
    using D by blast
  have m: "main env =
    (Done, \<lparr>GitLabRunnerRoleARN = r, GitLabRunnerRolePolicyARN = p,
            GitLabRunnerServiceAccountARN =
              Sprintf GitLabRunnerServiceAccountAnnotationValue [a, GitLabRunnerRoleName],
            calls = full_run a p\<rparr>)"
    using a r p by (simp add: step_defs A E F full_run_def contract_defs)
  show ?thesis
    unfolding m by (auto simp: full_run_def contract_defs)
qed

text \<open>Collaborators that always succeed satisfy the hypothesis.\<close>

theorem successful_run_witness:
  "(\<forall>h c. succeeds env_ok h c) \<and> fst (main env_ok) = Done \<and>
   exit_code (fst (main env_ok)) = 0 \<and>
   map step_of (calls (snd (main env_ok))) = [1, 1, 2, 3, 4, 5, 5, 6, 6]"
proof -
  have h: "\<forall>h c. succeeds env_ok h c"
    by (simp add: env_ok_def mock_None_succeeds)
  from successful_run [OF h] h show ?thesis
    by simp
qed

lemma list_split_conv:
  "(x # xs = h @ c # rest) =
     ((h = [] \<and> x = c \<and> xs = rest) \<or> (\<exists>h'. h = x # h' \<and> xs = h' @ c # rest))"
  by (cases h) auto

text \<open>
  Claim C6. If a run invokes the \<open>kubectl create serviceaccount\<close> subprocess and the
  subprocess does not succeed (it exits non-zero), then the process exits with a
  non-zero status, that subprocess is the last invocation of the run, and no \<open>helm\<close>
  subprocess is invoked at all: neither \<open>helm repo add\<close> nor \<open>helm install\<close>.
\<close>

theorem kubectl_create_failure_stops_run:
  assumes "calls (snd (main env)) =
             h @ kubectl_create_serviceaccount GitLabRunnerServiceAccountName # rest"
    and "\<not> succeeds env h (kubectl_create_serviceaccount GitLabRunnerServiceAccountName)"
  shows "exit_code (fst (main env)) \<noteq> 0 \<and> rest = [] \<and>
         (\<forall>c \<in> set (calls (snd (main env))). \<forall>args. c \<noteq> Run ''helm'' args)"
  using assms
  by (auto simp add: step_defs kubectl_create_serviceaccount_def list_split_conv
      split: option.splits sum.splits)

text \<open>Collaborators whose sixth invocation, \<open>kubectl create serviceaccount\<close>, fails.\<close>

theorem kubectl_create_failure_stops_run_witness:
  "calls (snd (main (mock (Some 5) []))) =
     take 5 (full_run ''123456789012''
       ''arn:aws:iam::123456789012:policy/GitLabRunnerRolePolicy'') @
     kubectl_create_serviceaccount GitLabRunnerServiceAccountName # [] \<and>
   \<not> succeeds (mock (Some 5) [])
       (take 5 (full_run ''123456789012''
         ''arn:aws:iam::123456789012:policy/GitLabRunnerRolePolicy''))
       (kubectl_create_serviceaccount GitLabRunnerServiceAccountName) \<and>
   exit_code (fst (main (mock (Some 5) []))) = 1 \<and>
   map step_of (calls (snd (main (mock (Some 5) [])))) = [1, 1, 2, 3, 4, 5]"
proof -
  let ?h = "take 5 (full_run ''123456789012''
       ''arn:aws:iam::123456789012:policy/GitLabRunnerRolePolicy'')"
  have h1: "calls (snd (main (mock (Some 5) []))) =
      ?h @ kubectl_create_serviceaccount GitLabRunnerServiceAccountName # []"
    by (simp add: step_defs mock_def full_run_def contract_defs)
  have h2: "\<not> succeeds (mock (Some 5) []) ?h
      (kubectl_create_serviceaccount GitLabRunnerServiceAccountName)"
    by (simp add: mock_def full_run_def contract_defs)
  have h3: "exit_code (fst (main (mock (Some 5) []))) = 1"
    by (simp add: step_defs mock_def)
  from kubectl_create_failure_stops_run [OF h1 h2] h1 h2 h3 show ?thesis
    by (simp add: full_run_def contract_defs)
qed

text \<open>
  Claim C7. Every subprocess a run invokes has one of the four argument shapes of the
  external-interface contract, filled with the program's constants:
  \<open>kubectl create serviceaccount <name>\<close>,
  \<open>kubectl annotate serviceaccount <name> <annotation-key>=<annotation-value>\<close>,
  \<open>helm repo add <alias> <repo-url>\<close> and
  \<open>helm install --name <release> --namespace <namespace> --values <values-file-path>
  <chart-name> --version <version>\<close>.
\<close>

theorem subprocess_shapes:
  "\<forall>c \<in> set (calls (snd (main env))). is_subprocess c \<longrightarrow>
     c = kubectl_create_serviceaccount GitLabRunnerServiceAccountName \<or>
     (\<exists>a. c = kubectl_annotate_serviceaccount GitLabRunnerServiceAccountName
               GitLabRunnerServiceAccountAnnotation
               (Sprintf GitLabRunnerServiceAccountAnnotationValue [a, GitLabRunnerRoleName])) \<or>
     c = helm_repo_add ''gitlab'' GitLabRunnerHelmChartRepo \<or>
     c = helm_install GitLabRunnerHelmChartReleaseName GitLabRunnerHelmChartNamespace
           GitLabRunnerHelmChartValuesFile GitLabRunnerHelmChartName GitLabRunnerHelmChartVersion"
  by (auto simp add: step_defs is_subprocess_def contract_defs split: option.splits sum.splits)

text \<open>A complete run invokes all four subprocesses, with exactly these arguments.\<close>

theorem subprocess_shapes_witness:
  "filter is_subprocess (calls (snd (main env_ok))) =
     [Run ''kubectl'' [''create'', ''serviceaccount'', ''gitlab-runner''],
      Run ''kubectl'' [''annotate'', ''serviceaccount'', ''gitlab-runner'',
        ''eks.amazonaws.com/role-arn=arn:aws:iam::123456789012:role/GitLabRunnerRole''],
      Run ''helm'' [''repo'', ''add'', ''gitlab'', ''https://charts.gitlab.io''],
      Run ''helm'' [''install'', ''--name'', ''gitlab-runner'', ''--namespace'', ''gitlab-runner'',
        ''--values'', ''values.yaml'', ''gitlab-runner'', ''--version'', ''0.1.0'']]"
  using subprocess_shapes [of env_ok]
  by (simp add: step_defs env_ok_def mock_def is_subprocess_def Sprintf_annotation
      constants_defs)

text \<open>
  Two runs whose collaborators differ only in the ARN that role creation returns: the
  ARN ends up in \<open>GitLabRunnerRoleARN\<close>, and the invocations of the later steps are the
  same in both runs. The attach request carries the fixed role name and the policy ARN,
  the annotation value is built from the account id and the fixed role name.
\<close>

theorem role_arn_consumed_counterexample:
  "GitLabRunnerRoleARN (snd (main (mock None ''arn:aws:iam::123456789012:role/GitLabRunnerRole''))) =
     ''arn:aws:iam::123456789012:role/GitLabRunnerRole'' \<and>
   GitLabRunnerRoleARN (snd (main (mock None ''arn:aws:iam::123456789012:role/ci/Other''))) =
     ''arn:aws:iam::123456789012:role/ci/Other'' \<and>
   drop 4 (calls (snd (main (mock None ''arn:aws:iam::123456789012:role/GitLabRunnerRole'')))) =
   drop 4 (calls (snd (main (mock None ''arn:aws:iam::123456789012:role/ci/Other'')))) \<and>
   take 3 (drop 4 (calls (snd (main (mock None ''arn:aws:iam::123456789012:role/ci/Other''))))) =
     [AttachRolePolicy \<lparr>PolicyArn = ''arn:aws:iam::123456789012:policy/GitLabRunnerRolePolicy'',
                        RoleName = ''GitLabRunnerRole''\<rparr>,
      Run ''kubectl'' [''create'', ''serviceaccount'', ''gitlab-runner''],
      Run ''kubectl'' [''annotate'', ''serviceaccount'', ''gitlab-runner'',
        ''eks.amazonaws.com/role-arn=arn:aws:iam::123456789012:role/GitLabRunnerRole'']]"
  by (simp add: step_defs mock_def Sprintf_annotation constants_defs)

text \<open>
  Claim C8, amended. The ARN that role creation returns is stored in
  \<open>GitLabRunnerRoleARN\<close> and no later step consumes it. Replacing it by any other
  string changes neither the way the process ends, nor any invocation of the run, nor
  the two other package-level variables. Once \<open>createRole\<close> has returned the ARN
  \<open>r\<close>, the variable holds \<open>r\<close> when the process ends. Once \<open>createRolePolicy\<close> has
  returned the policy ARN \<open>p\<close>, the next invocation is the attach request with
  \<open>PolicyArn\<close> \<open>p\<close> and the fixed role name. Once the attachment and
  \<open>kubectl create serviceaccount\<close> have succeeded, the next invocation is
  \<open>kubectl annotate\<close> with the value built from the account id \<open>a\<close> that
  \<open>getAccountID\<close> returned and the fixed role name.
\<close>

theorem role_arn_not_consumed:
  "(fst (main (with_role_arn x env)) = fst (main env) \<and>
    calls (snd (main (with_role_arn x env))) = calls (snd (main env)) \<and>
    GitLabRunnerRolePolicyARN (snd (main (with_role_arn x env))) =
      GitLabRunnerRolePolicyARN (snd (main env)) \<and>
    GitLabRunnerServiceAccountARN (snd (main (with_role_arn x env))) =
      GitLabRunnerServiceAccountARN (snd (main env)))
   \<and>
   (session_NewSession env [] ''eu-west-1'' = None \<and>
    getAccountID env (invoke (NewSession ''eu-west-1'') init_state) =
      (Returns (a, None), s_identity) \<and>
    createRole env a s_identity = (Returns (r, None), s_role) \<longrightarrow>
      GitLabRunnerRoleARN (snd (main env)) = r)
   \<and>
   (session_NewSession env [] ''eu-west-1'' = None \<and>
    getAccountID env (invoke (NewSession ''eu-west-1'') init_state) =
      (Returns (a, None), s_identity) \<and>
    createRole env a s_identity = (Returns (r, None), s_role) \<and>
    createRolePolicy env a (s_role\<lparr>GitLabRunnerRoleARN := r\<rparr>) =
      (Returns (p, None), s_policy) \<longrightarrow>
      (\<exists>rest. calls (snd (main env)) =
         calls s_policy @
         AttachRolePolicy \<lparr>PolicyArn = p, RoleName = GitLabRunnerRoleName\<rparr> # rest))
   \<and>
   (session_NewSession env [] ''eu-west-1'' = None \<and>
    getAccountID env (invoke (NewSession ''eu-west-1'') init_state) =
      (Returns (a, None), s_identity) \<and>
    createRole env a s_identity = (Returns (r, None), s_role) \<and>
    createRolePolicy env a (s_role\<lparr>GitLabRunnerRoleARN := r\<rparr>) =
      (Returns (p, None), s_policy) \<and>
    attachRolePolicy env a (s_policy\<lparr>GitLabRunnerRolePolicyARN := p\<rparr>) =
      (None, s_attach) \<and>
    succeeds env (calls s_attach)
      (kubectl_create_serviceaccount GitLabRunnerServiceAccountName) \<longrightarrow>
      (\<exists>rest. calls (snd (main env)) =
         calls s_attach @
         kubectl_create_serviceaccount GitLabRunnerServiceAccountName #
         kubectl_annotate_serviceaccount GitLabRunnerServiceAccountName
           GitLabRunnerServiceAccountAnnotation
           (''arn:aws:iam::'' @ a @ '':role/'' @ GitLabRunnerRoleName) # rest))"
proof (intro conjI impI; (elim conjE)?)
  let ?s0 = "invoke (NewSession ''eu-west-1'') init_state"
  {
    assume "session_NewSession env [] ''eu-west-1'' = None"
      and "getAccountID env ?s0 = (Returns (a, None), s_identity)"
      and c: "createRole env a s_identity = (Returns (r, None), s_role)"
    then show "GitLabRunnerRoleARN (snd (main env)) = r"
      by (simp add: main_def createRolePolicy_def attachRolePolicy_def
          createServiceAccount_def deployHelmChart_def Let_def invoke_def init_state_def
          split: option.splits sum.splits)
  }
  {
    assume "session_NewSession env [] ''eu-west-1'' = None"
      and "getAccountID env ?s0 = (Returns (a, None), s_identity)"
      and "createRole env a s_identity = (Returns (r, None), s_role)"
      and "createRolePolicy env a (s_role\<lparr>GitLabRunnerRoleARN := r\<rparr>) =
             (Returns (p, None), s_policy)"
    then show "\<exists>rest. calls (snd (main env)) =
         calls s_policy @
         AttachRolePolicy \<lparr>PolicyArn = p, RoleName = GitLabRunnerRoleName\<rparr> # rest"
      by (simp add: main_def attachRolePolicy_def
          createServiceAccount_def deployHelmChart_def Let_def invoke_def init_state_def
          split: option.splits)
  }
  {
    assume "session_NewSession env [] ''eu-west-1'' = None"
      and "getAccountID env ?s0 = (Returns (a, None), s_identity)"
      and "createRole env a s_identity = (Returns (r, None), s_role)"
      and "createRolePolicy env a (s_role\<lparr>GitLabRunnerRoleARN := r\<rparr>) =
             (Returns (p, None), s_policy)"
      and "attachRolePolicy env a (s_policy\<lparr>GitLabRunnerRolePolicyARN := p\<rparr>) =
             (None, s_attach)"
      and "succeeds env (calls s_attach)
             (kubectl_create_serviceaccount GitLabRunnerServiceAccountName)"
    then show "\<exists>rest. calls (snd (main env)) =
         calls s_attach @
         kubectl_create_serviceaccount GitLabRunnerServiceAccountName #
         kubectl_annotate_serviceaccount GitLabRunnerServiceAccountName
           GitLabRunnerServiceAccountAnnotation
           (''arn:aws:iam::'' @ a @ '':role/'' @ GitLabRunnerRoleName) # rest"
      by (simp add: main_def createServiceAccount_def deployHelmChart_def Let_def
          invoke_def init_state_def contract_defs GitLabRunnerServiceAccountAnnotationValue_def
          GitLabRunnerRoleName_def
          split: option.splits)
  }
qed (simp_all add: step_defs with_role_arn_def split: option.splits sum.splits)

text \<open>
  A complete run: the returned role ARN is in the variable, and the fifth, sixth and
  seventh invocations are the attach request and the two \<open>kubectl\<close> subprocesses.
\<close>

theorem role_arn_not_consumed_witness:
  "GitLabRunnerRoleARN (snd (main env_ok)) = ''arn:aws:iam::123456789012:role/GitLabRunnerRole'' \<and>
   calls (snd (main env_ok)) ! 4 =
     AttachRolePolicy \<lparr>PolicyArn = ''arn:aws:iam::123456789012:policy/GitLabRunnerRolePolicy'',
                        RoleName = ''GitLabRunnerRole''\<rparr> \<and>
   calls (snd (main env_ok)) ! 5 =
     Run ''kubectl'' [''create'', ''serviceaccount'', ''gitlab-runner''] \<and>
   calls (snd (main env_ok)) ! 6 =
     Run ''kubectl'' [''annotate'', ''serviceaccount'', ''gitlab-runner'',
       ''eks.amazonaws.com/role-arn=arn:aws:iam::123456789012:role/GitLabRunnerRole'']"
proof -
  let ?s0 = "invoke (NewSession ''eu-west-1'') init_state"
  let ?a = "''123456789012''"
  let ?r = "''arn:aws:iam::123456789012:role/GitLabRunnerRole''"
  let ?p = "''arn:aws:iam::123456789012:policy/GitLabRunnerRolePolicy''"
  let ?s1 = "snd (getAccountID env_ok ?s0)"
  let ?s2 = "snd (createRole env_ok ?a ?s1)"
  let ?s3 = "snd (createRolePolicy env_ok ?a (?s2\<lparr>GitLabRunnerRoleARN := ?r\<rparr>))"
  let ?s4 = "snd (attachRolePolicy env_ok ?a (?s3\<lparr>GitLabRunnerRolePolicyARN := ?p\<rparr>))"
  note defs = getAccountID_def createRole_def createRolePolicy_def attachRolePolicy_def
    Let_def invoke_def init_state_def env_ok_def mock_def contract_defs constants_defs
  note inst = role_arn_not_consumed [where env = env_ok and a = ?a and r = ?r and p = ?p
      and s_identity = ?s1 and s_role = ?s2 and s_policy = ?s3 and s_attach = ?s4]
  have h1: "session_NewSession env_ok [] ''eu-west-1'' = None \<and>
    getAccountID env_ok ?s0 = (Returns (?a, None), ?s1) \<and>
    createRole env_ok ?a ?s1 = (Returns (?r, None), ?s2)"
    by (simp add: defs)
  have h2: "session_NewSession env_ok [] ''eu-west-1'' = None \<and>
    getAccountID env_ok ?s0 = (Returns (?a, None), ?s1) \<and>
    createRole env_ok ?a ?s1 = (Returns (?r, None), ?s2) \<and>
    createRolePolicy env_ok ?a (?s2\<lparr>GitLabRunnerRoleARN := ?r\<rparr>) =
      (Returns (?p, None), ?s3)"
    by (simp add: defs)
  have h3: "session_NewSession env_ok [] ''eu-west-1'' = None \<and>
    getAccountID env_ok ?s0 = (Returns (?a, None), ?s1) \<and>
    createRole env_ok ?a ?s1 = (Returns (?r, None), ?s2) \<and>
    createRolePolicy env_ok ?a (?s2\<lparr>GitLabRunnerRoleARN := ?r\<rparr>) =
      (Returns (?p, None), ?s3) \<and>
    attachRolePolicy env_ok ?a (?s3\<lparr>GitLabRunnerRolePolicyARN := ?p\<rparr>) = (None, ?s4) \<and>
    succeeds env_ok (calls ?s4)
      (kubectl_create_serviceaccount GitLabRunnerServiceAccountName)"
    by (simp add: defs)
  have stored: "GitLabRunnerRoleARN (snd (main env_ok)) = ?r"
    by (rule inst [THEN conjunct2, THEN conjunct1, THEN mp, OF h1])
  from inst [THEN conjunct2, THEN conjunct2, THEN conjunct1, THEN mp, OF h2]
  obtain rest where "calls (snd (main env_ok)) =
      calls ?s3 @ AttachRolePolicy \<lparr>PolicyArn = ?p, RoleName = GitLabRunnerRoleName\<rparr> # rest"
    by blast
  then have attach: "calls (snd (main env_ok)) ! 4 =
      AttachRolePolicy \<lparr>PolicyArn = ?p, RoleName = ''GitLabRunnerRole''\<rparr>"
    by (simp add: defs)
  from inst [THEN conjunct2, THEN conjunct2, THEN conjunct2, THEN mp, OF h3]
  obtain rest' where "calls (snd (main env_ok)) =
      calls ?s4 @
      kubectl_create_serviceaccount GitLabRunnerServiceAccountName #
      kubectl_annotate_serviceaccount GitLabRunnerServiceAccountName
        GitLabRunnerServiceAccountAnnotation
        (''arn:aws:iam::'' @ ?a @ '':role/'' @ GitLabRunnerRoleName) # rest'"
    by blast
  then have kubectl: "calls (snd (main env_ok)) ! 5 =
      Run ''kubectl'' [''create'', ''serviceaccount'', ''gitlab-runner''] \<and>
    calls (snd (main env_ok)) ! 6 =
      Run ''kubectl'' [''annotate'', ''serviceaccount'', ''gitlab-runner'',
        ''eks.amazonaws.com/role-arn=arn:aws:iam::123456789012:role/GitLabRunnerRole'']"
    by (simp add: defs)
  from stored attach kubectl show ?thesis by blast
qed

subsection \<open>Fail-fast\<close>

lemma session_steps:
  "c \<in> set (calls (invoke (NewSession region) init_state)) \<Longrightarrow> step_of c = 1"
  by (simp add: invoke_def init_state_def)

lemma getAccountID_steps:
  "getAccountID env s = (r, s') \<Longrightarrow> c \<in> set (calls s') \<Longrightarrow>
     c \<in> set (calls s) \<or> step_of c = 1"
  by (auto simp: getAccountID_def Let_def invoke_def split: sum.splits option.splits)

lemma createRole_steps:
  "createRole env a s = (r, s') \<Longrightarrow> c \<in> set (calls s') \<Longrightarrow>
     c \<in> set (calls s) \<or> step_of c = 2"
  by (auto simp: createRole_def Let_def invoke_def split: sum.splits option.splits)

lemma createRolePolicy_steps:
  "createRolePolicy env a s = (r, s') \<Longrightarrow> c \<in> set (calls s') \<Longrightarrow>
     c \<in> set (calls s) \<or> step_of c = 3"
  by (auto simp: createRolePolicy_def Let_def invoke_def split: sum.splits option.splits)

lemma attachRolePolicy_steps:
  "attachRolePolicy env a s = (r, s') \<Longrightarrow> c \<in> set (calls s') \<Longrightarrow>
     c \<in> set (calls s) \<or> step_of c = 4"
  by (auto simp: attachRolePolicy_def Let_def invoke_def split: option.splits)

lemma createServiceAccount_steps:
  "createServiceAccount env a s = (r, s') \<Longrightarrow> c \<in> set (calls s') \<Longrightarrow>
     c \<in> set (calls s) \<or> step_of c = 5"
  by (auto simp: createServiceAccount_def Let_def invoke_def split: option.splits)

text \<open>
  Claim C1. For each of the six steps: if the steps before it succeeded and the step
  returns an error \<open>e\<close>, then the run ends at once with \<open>logrus.Fatal(e)\<close>, in the state
  the failing step left (with the returned string assigned to the step's variable), so
  nothing is invoked after the step returns; and every invocation of the run belongs to
  the failing step or to a step before it. Step 1 fails when the session cannot be
  opened or when \<open>getAccountID\<close> returns an error.
\<close>

theorem fail_fast:
  "(session_NewSession env [] ''eu-west-1'' = Some e \<longrightarrow>
      main env = (Fatal e, invoke (NewSession ''eu-west-1'') init_state) \<and>
      (\<forall>c \<in> set (calls (snd (main env))). step_of c \<le> 1))
   \<and>
   (session_NewSession env [] ''eu-west-1'' = None \<and>
    getAccountID env (invoke (NewSession ''eu-west-1'') init_state) =
      (Returns (x, Some e), s_identity) \<longrightarrow>
      main env = (Fatal e, s_identity) \<and>
      (\<forall>c \<in> set (calls (snd (main env))). step_of c \<le> 1))
   \<and>
   (session_NewSession env [] ''eu-west-1'' = None \<and>
    getAccountID env (invoke (NewSession ''eu-west-1'') init_state) =
      (Returns (a, None), s_identity) \<and>
    createRole env a s_identity = (Returns (x, Some e), s_role) \<longrightarrow>
      main env = (Fatal e, s_role\<lparr>GitLabRunnerRoleARN := x\<rparr>) \<and>
      (\<forall>c \<in> set (calls (snd (main env))). step_of c \<le> 2))
   \<and>
   (session_NewSession env [] ''eu-west-1'' = None \<and>
    getAccountID env (invoke (NewSession ''eu-west-1'') init_state) =
      (Returns (a, None), s_identity) \<and>
    createRole env a s_identity = (Returns (r, None), s_role) \<and>
    createRolePolicy env a (s_role\<lparr>GitLabRunnerRoleARN := r\<rparr>) =
      (Returns (x, Some e), s_policy) \<longrightarrow>
      main env = (Fatal e, s_policy\<lparr>GitLabRunnerRolePolicyARN := x\<rparr>) \<and>
      (\<forall>c \<in> set (calls (snd (main env))). step_of c \<le> 3))
   \<and>
   (session_NewSession env [] ''eu-west-1'' = None \<and>
    getAccountID env (invoke (NewSession ''eu-west-1'') init_state) =
      (Returns (a, None), s_identity) \<and>
    createRole env a s_identity = (Returns (r, None), s_role) \<and>
    createRolePolicy env a (s_role\<lparr>GitLabRunnerRoleARN := r\<rparr>) =
      (Returns (p, None), s_policy) \<and>
    attachRolePolicy env a (s_policy\<lparr>GitLabRunnerRolePolicyARN := p\<rparr>) =
      (Some e, s_attach) \<longrightarrow>
      main env = (Fatal e, s_attach) \<and>
      (\<forall>c \<in> set (calls (snd (main env))). step_of c \<le> 4))
   \<and>
   (session_NewSession env [] ''eu-west-1'' = None \<and>
    getAccountID env (invoke (NewSession ''eu-west-1'') init_state) =
      (Returns (a, None), s_identity) \<and>
    createRole env a s_identity = (Returns (r, None), s_role) \<and>
    createRolePolicy env a (s_role\<lparr>GitLabRunnerRoleARN := r\<rparr>) =
      (Returns (p, None), s_policy) \<and>
    attachRolePolicy env a (s_policy\<lparr>GitLabRunnerRolePolicyARN := p\<rparr>) =
      (None, s_attach) \<and>
    createServiceAccount env a s_attach = ((x, Some e), s_account) \<longrightarrow>
      main env = (Fatal e, s_account\<lparr>GitLabRunnerServiceAccountARN := x\<rparr>) \<and>
      (\<forall>c \<in> set (calls (snd (main env))). step_of c \<le> 5))
   \<and>
   (session_NewSession env [] ''eu-west-1'' = None \<and>
    getAccountID env (invoke (NewSession ''eu-west-1'') init_state) =
      (Returns (a, None), s_identity) \<and>
    createRole env a s_identity = (Returns (r, None), s_role) \<and>
    createRolePolicy env a (s_role\<lparr>GitLabRunnerRoleARN := r\<rparr>) =
      (Returns (p, None), s_policy) \<and>
    attachRolePolicy env a (s_policy\<lparr>GitLabRunnerRolePolicyARN := p\<rparr>) =
      (None, s_attach) \<and>
    createServiceAccount env a s_attach = ((v, None), s_account) \<and>
    deployHelmChart env (s_account\<lparr>GitLabRunnerServiceAccountARN := v\<rparr>) =
      (Some e, s_chart) \<longrightarrow>
      main env = (Fatal e, s_chart))"
proof (intro conjI impI; (elim conjE)?)
  let ?s0 = "invoke (NewSession ''eu-west-1'') init_state"
  note calls0 = session_steps [of _ "''eu-west-1''"]
  {
    assume "session_NewSession env [] ''eu-west-1'' = Some e"
    then show m: "main env = (Fatal e, ?s0)"
      by (simp add: main_def Let_def init_state_def)
    show "\<forall>c \<in> set (calls (snd (main env))). step_of c \<le> 1"
      using calls0 by (auto simp: m)
  }
  {
    assume "session_NewSession env [] ''eu-west-1'' = None"
      and g: "getAccountID env ?s0 = (Returns (x, Some e), s_identity)"
    then show m: "main env = (Fatal e, s_identity)"
      by (simp add: main_def Let_def init_state_def)
    show "\<forall>c \<in> set (calls (snd (main env))). step_of c \<le> 1"
      using calls0 getAccountID_steps [OF g] by (fastforce simp: m)
  }
  {
    assume "session_NewSession env [] ''eu-west-1'' = None"
      and g: "getAccountID env ?s0 = (Returns (a, None), s_identity)"
      and c: "createRole env a s_identity = (Returns (x, Some e), s_role)"
    then show m: "main env = (Fatal e, s_role\<lparr>GitLabRunnerRoleARN := x\<rparr>)"
      by (simp add: main_def Let_def init_state_def)
    show "\<forall>c \<in> set (calls (snd (main env))). step_of c \<le> 2"
      using calls0 getAccountID_steps [OF g] createRole_steps [OF c]
      by (fastforce simp: m)
  }
  {
    assume "session_NewSession env [] ''eu-west-1'' = None"
      and g: "getAccountID env ?s0 = (Returns (a, None), s_identity)"
      and c: "createRole env a s_identity = (Returns (r, None), s_role)"
      and p: "createRolePolicy env a (s_role\<lparr>GitLabRunnerRoleARN := r\<rparr>) =
                (Returns (x, Some e), s_policy)"
    then show m: "main env = (Fatal e, s_policy\<lparr>GitLabRunnerRolePolicyARN := x\<rparr>)"
      by (simp add: main_def Let_def init_state_def)
    show "\<forall>c \<in> set (calls (snd (main env))). step_of c \<le> 3"
      using calls0 getAccountID_steps [OF g] createRole_steps [OF c]
        createRolePolicy_steps [OF p]
      by (fastforce simp: m)
  }
  {
    assume "session_NewSession env [] ''eu-west-1'' = None"
      and g: "getAccountID env ?s0 = (Returns (a, None), s_identity)"
      and c: "createRole env a s_identity = (Returns (r, None), s_role)"
      and p: "createRolePolicy env a (s_role\<lparr>GitLabRunnerRoleARN := r\<rparr>) =
                (Returns (p, None), s_policy)"
      and t: "attachRolePolicy env a (s_policy\<lparr>GitLabRunnerRolePolicyARN := p\<rparr>) =
                (Some e, s_attach)"
    then show m: "main env = (Fatal e, s_attach)"
      by (simp add: main_def Let_def init_state_def)
    show "\<forall>c \<in> set (calls (snd (main env))). step_of c \<le> 4"
      using calls0 getAccountID_steps [OF g] createRole_steps [OF c]
        createRolePolicy_steps [OF p] attachRolePolicy_steps [OF t]
      by (fastforce simp: m)
  }
  {
    assume "session_NewSession env [] ''eu-west-1'' = None"
      and g: "getAccountID env ?s0 = (Returns (a, None), s_identity)"
      and c: "createRole env a s_identity = (Returns (r, None), s_role)"
      and p: "createRolePolicy env a (s_role\<lparr>GitLabRunnerRoleARN := r\<rparr>) =
                (Returns (p, None), s_policy)"
      and t: "attachRolePolicy env a (s_policy\<lparr>GitLabRunnerRolePolicyARN := p\<rparr>) =
                (None, s_attach)"
      and k: "createServiceAccount env a s_attach = ((x, Some e), s_account)"
    then show m: "main env = (Fatal e, s_account\<lparr>GitLabRunnerServiceAccountARN := x\<rparr>)"
      by (simp add: main_def Let_def init_state_def)
    show "\<forall>c \<in> set (calls (snd (main env))). step_of c \<le> 5"
      using calls0 getAccountID_steps [OF g] createRole_steps [OF c]
        createRolePolicy_steps [OF p] attachRolePolicy_steps [OF t]
        createServiceAccount_steps [OF k]
      by (fastforce simp: m)
  }
  {
    assume "session_NewSession env [] ''eu-west-1'' = None"
      and g: "getAccountID env ?s0 = (Returns (a, None), s_identity)"
      and c: "createRole env a s_identity = (Returns (r, None), s_role)"
      and p: "createRolePolicy env a (s_role\<lparr>GitLabRunnerRoleARN := r\<rparr>) =
                (Returns (p, None), s_policy)"
      and t: "attachRolePolicy env a (s_policy\<lparr>GitLabRunnerRolePolicyARN := p\<rparr>) =
                (None, s_attach)"
      and k: "createServiceAccount env a s_attach = ((v, None), s_account)"
      and d: "deployHelmChart env (s_account\<lparr>GitLabRunnerServiceAccountARN := v\<rparr>) =
                (Some e, s_chart)"
    then show "main env = (Fatal e, s_chart)"
      by (simp add: main_def Let_def init_state_def)
  }
qed

text \<open>
  One run for each case of the claim: collaborators that fail on the session, the
  identity lookup, role creation, policy creation, policy attachment,
  \<open>kubectl create serviceaccount\<close> and \<open>helm repo add\<close>.
\<close>

theorem fail_fast_witness:
  "(fst (main (mock (Some 0) [])) = Fatal ''no credentials'' \<and>
    map step_of (calls (snd (main (mock (Some 0) [])))) = [1]) \<and>
   (fst (main (mock (Some 1) [])) = Fatal ''failed to get caller identity: access denied'' \<and>
    map step_of (calls (snd (main (mock (Some 1) [])))) = [1, 1]) \<and>
   (fst (main (mock (Some 2) [])) = Fatal ''failed to create role: EntityAlreadyExists'' \<and>
    map step_of (calls (snd (main (mock (Some 2) [])))) = [1, 1, 2]) \<and>
   (fst (main (mock (Some 3) [])) = Fatal ''failed to create role policy: EntityAlreadyExists'' \<and>
    map step_of (calls (snd (main (mock (Some 3) [])))) = [1, 1, 2, 3]) \<and>
   (fst (main (mock (Some 4) [])) = Fatal ''failed to attach role policy: access denied'' \<and>
    map step_of (calls (snd (main (mock (Some 4) [])))) = [1, 1, 2, 3, 4]) \<and>
   (fst (main (mock (Some 5) [])) = Fatal ''failed to create service account: exit status 1'' \<and>
    map step_of (calls (snd (main (mock (Some 5) [])))) = [1, 1, 2, 3, 4, 5]) \<and>
   (fst (main (mock (Some 7) [])) = Fatal ''failed to add helm chart repo: exit status 1'' \<and>
    map step_of (calls (snd (main (mock (Some 7) [])))) = [1, 1, 2, 3, 4, 5, 5, 6])"
proof -
  let ?s0 = "invoke (NewSession ''eu-west-1'') init_state"
  let ?a = "''123456789012''"
  let ?p = "''arn:aws:iam::123456789012:policy/GitLabRunnerRolePolicy''"
  note defs = getAccountID_def createRole_def createRolePolicy_def attachRolePolicy_def
    createServiceAccount_def deployHelmChart_def Let_def invoke_def init_state_def mock_def
    Wrap_def Sprintf_annotation
  have k0: "fst (main (mock (Some 0) [])) = Fatal ''no credentials'' \<and>
      map step_of (calls (snd (main (mock (Some 0) [])))) = [1]"
  proof -
    let ?env = "mock (Some 0) []"
    let ?e = "''no credentials''"
    have h: "session_NewSession ?env [] ''eu-west-1'' = Some ?e"
      by (simp add: defs)
    from fail_fast [where env = ?env
        and e = ?e,
        THEN conjunct1, THEN mp, OF h]
    show ?thesis by (simp add: defs)
  qed
  have k1: "fst (main (mock (Some 1) [])) = Fatal ''failed to get caller identity: access denied'' \<and>
      map step_of (calls (snd (main (mock (Some 1) [])))) = [1, 1]"
  proof -
    let ?env = "mock (Some 1) []"
    let ?e = "''failed to get caller identity: access denied''"
    let ?s1 = "snd (getAccountID ?env ?s0)"
    have h: "session_NewSession ?env [] ''eu-west-1'' = None \<and>
      getAccountID ?env ?s0 = (Returns ([], Some ?e), ?s1)"
      by (simp add: defs)
    from fail_fast [where env = ?env
        and e = ?e
        and s_identity = ?s1
        and x = "[]",
        THEN conjunct2, THEN conjunct1, THEN mp, OF h]
    show ?thesis by (simp add: defs)
  qed
  have k2: "fst (main (mock (Some 2) [])) = Fatal ''failed to create role: EntityAlreadyExists'' \<and>
      map step_of (calls (snd (main (mock (Some 2) [])))) = [1, 1, 2]"
  proof -
    let ?env = "mock (Some 2) []"
    let ?e = "''failed to create role: EntityAlreadyExists''"
    let ?s1 = "snd (getAccountID ?env ?s0)"
    let ?s2 = "snd (createRole ?env ?a ?s1)"
    have h: "session_NewSession ?env [] ''eu-west-1'' = None \<and>
      getAccountID ?env ?s0 = (Returns (?a, None), ?s1) \<and>
      createRole ?env ?a ?s1 = (Returns ([], Some ?e), ?s2)"
      by (simp add: defs)
    from fail_fast [where env = ?env
        and e = ?e
        and s_identity = ?s1
        and a = ?a
        and s_role = ?s2
        and x = "[]",
        THEN conjunct2, THEN conjunct2, THEN conjunct1, THEN mp, OF h]
    show ?thesis by (simp add: defs)
  qed
  have k3: "fst (main (mock (Some 3) [])) = Fatal ''failed to create role policy: EntityAlreadyExists'' \<and>
      map step_of (calls (snd (main (mock (Some 3) [])))) = [1, 1, 2, 3]"
  proof -
    let ?env = "mock (Some 3) []"
    let ?e = "''failed to create role policy: EntityAlreadyExists''"
    let ?s1 = "snd (getAccountID ?env ?s0)"
    let ?s2 = "snd (createRole ?env ?a ?s1)"
    let ?s3 = "snd (createRolePolicy ?env ?a (?s2\<lparr>GitLabRunnerRoleARN := []\<rparr>))"
    have h: "session_NewSession ?env [] ''eu-west-1'' = None \<and>
      getAccountID ?env ?s0 = (Returns (?a, None), ?s1) \<and>
      createRole ?env ?a ?s1 = (Returns ([], None), ?s2) \<and>
      createRolePolicy ?env ?a (?s2\<lparr>GitLabRunnerRoleARN := []\<rparr>) =
        (Returns ([], Some ?e), ?s3)"
      by (simp add: defs)
    from fail_fast [where env = ?env
        and e = ?e
        and s_identity = ?s1
        and a = ?a
        and s_role = ?s2
        and r = "[]"
        and s_policy = ?s3
        and x = "[]",
        THEN conjunct2, THEN conjunct2, THEN conjunct2, THEN conjunct1, THEN mp, OF h]
    show ?thesis by (simp add: defs)
  qed
  have k4: "fst (main (mock (Some 4) [])) = Fatal ''failed to attach role policy: access denied'' \<and>
      map step_of (calls (snd (main (mock (Some 4) [])))) = [1, 1, 2, 3, 4]"
  proof -
    let ?env = "mock (Some 4) []"
    let ?e = "''failed to attach role policy: access denied''"
    let ?s1 = "snd (getAccountID ?env ?s0)"
    let ?s2 = "snd (createRole ?env ?a ?s1)"
    let ?s3 = "snd (createRolePolicy ?env ?a (?s2\<lparr>GitLabRunnerRoleARN := []\<rparr>))"
    let ?s4 = "snd (attachRolePolicy ?env ?a (?s3\<lparr>GitLabRunnerRolePolicyARN := ?p\<rparr>))"
    have h: "session_NewSession ?env [] ''eu-west-1'' = None \<and>
      getAccountID ?env ?s0 = (Returns (?a, None), ?s1) \<and>
      createRole ?env ?a ?s1 = (Returns ([], None), ?s2) \<and>
      createRolePolicy ?env ?a (?s2\<lparr>GitLabRunnerRoleARN := []\<rparr>) =
        (Returns (?p, None), ?s3) \<and>
      attachRolePolicy ?env ?a (?s3\<lparr>GitLabRunnerRolePolicyARN := ?p\<rparr>) =
        (Some ?e, ?s4)"
      by (simp add: defs)
    from fail_fast [where env = ?env
        and e = ?e
        and s_identity = ?s1
        and a = ?a
        and s_role = ?s2
        and r = "[]"
        and s_policy = ?s3
        and p = ?p
        and s_attach = ?s4,
        THEN conjunct2, THEN conjunct2, THEN conjunct2, THEN conjunct2, THEN conjunct1, THEN mp, OF h]
    show ?thesis by (simp add: defs)
  qed
  have k5: "fst (main (mock (Some 5) [])) = Fatal ''failed to create service account: exit status 1'' \<and>
      map step_of (calls (snd (main (mock (Some 5) [])))) = [1, 1, 2, 3, 4, 5]"
  proof -
    let ?env = "mock (Some 5) []"
    let ?e = "''failed to create service account: exit status 1''"
    let ?s1 = "snd (getAccountID ?env ?s0)"
    let ?s2 = "snd (createRole ?env ?a ?s1)"
    let ?s3 = "snd (createRolePolicy ?env ?a (?s2\<lparr>GitLabRunnerRoleARN := []\<rparr>))"
    let ?s4 = "snd (attachRolePolicy ?env ?a (?s3\<lparr>GitLabRunnerRolePolicyARN := ?p\<rparr>))"
    let ?s5 = "snd (createServiceAccount ?env ?a ?s4)"
    have h: "session_NewSession ?env [] ''eu-west-1'' = None \<and>
      getAccountID ?env ?s0 = (Returns (?a, None), ?s1) \<and>
      createRole ?env ?a ?s1 = (Returns ([], None), ?s2) \<and>
      createRolePolicy ?env ?a (?s2\<lparr>GitLabRunnerRoleARN := []\<rparr>) =
        (Returns (?p, None), ?s3) \<and>
      attachRolePolicy ?env ?a (?s3\<lparr>GitLabRunnerRolePolicyARN := ?p\<rparr>) =
        (None, ?s4) \<and>
      createServiceAccount ?env ?a ?s4 = (([], Some ?e), ?s5)"
      by (simp add: defs)
    from fail_fast [where env = ?env
        and e = ?e
        and s_identity = ?s1
        and a = ?a
        and s_role = ?s2
        and r = "[]"
        and s_policy = ?s3
        and p = ?p
        and s_attach = ?s4
        and s_account = ?s5
        and x = "[]",
        THEN conjunct2, THEN conjunct2, THEN conjunct2, THEN conjunct2, THEN conjunct2, THEN conjunct1, THEN mp, OF h]
    show ?thesis by (simp add: defs)
  qed
  have k7: "fst (main (mock (Some 7) [])) = Fatal ''failed to add helm chart repo: exit status 1'' \<and>
      map step_of (calls (snd (main (mock (Some 7) [])))) = [1, 1, 2, 3, 4, 5, 5, 6]"
  proof -
    let ?env = "mock (Some 7) []"
    let ?e = "''failed to add helm chart repo: exit status 1''"
    let ?s1 = "snd (getAccountID ?env ?s0)"
    let ?s2 = "snd (createRole ?env ?a ?s1)"
    let ?s3 = "snd (createRolePolicy ?env ?a (?s2\<lparr>GitLabRunnerRoleARN := []\<rparr>))"
    let ?s4 = "snd (attachRolePolicy ?env ?a (?s3\<lparr>GitLabRunnerRolePolicyARN := ?p\<rparr>))"
    let ?s5 = "snd (createServiceAccount ?env ?a ?s4)"
    let ?v = "''arn:aws:iam::123456789012:role/GitLabRunnerRole''"
    let ?s6 = "snd (deployHelmChart ?env (?s5\<lparr>GitLabRunnerServiceAccountARN := ?v\<rparr>))"
    have h: "session_NewSession ?env [] ''eu-west-1'' = None \<and>
      getAccountID ?env ?s0 = (Returns (?a, None), ?s1) \<and>
      createRole ?env ?a ?s1 = (Returns ([], None), ?s2) \<and>
      createRolePolicy ?env ?a (?s2\<lparr>GitLabRunnerRoleARN := []\<rparr>) =
        (Returns (?p, None), ?s3) \<and>
      attachRolePolicy ?env ?a (?s3\<lparr>GitLabRunnerRolePolicyARN := ?p\<rparr>) =
        (None, ?s4) \<and>
      createServiceAccount ?env ?a ?s4 = ((?v, None), ?s5) \<and>
      deployHelmChart ?env (?s5\<lparr>GitLabRunnerServiceAccountARN := ?v\<rparr>) =
        (Some ?e, ?s6)"
      by (simp add: defs)
    from fail_fast [where env = ?env
        and e = ?e
        and s_identity = ?s1
        and a = ?a
        and s_role = ?s2
        and r = "[]"
        and s_policy = ?s3
        and p = ?p
        and s_attach = ?s4
        and s_account = ?s5
        and v = ?v
        and s_chart = ?s6,
        THEN conjunct2, THEN conjunct2, THEN conjunct2, THEN conjunct2, THEN conjunct2, THEN conjunct2, THEN mp, OF h]
    show ?thesis by (simp add: defs)
  qed
  from k0 k1 k2 k3 k4 k5 k7 show ?thesis by blast
qed

end
